theory Spec2Isabelle
  imports Main "HOL-Library.AList"
begin

section \<open>ClassicJSMinus: values, objects and the module's shared state\<close>

text \<open>
  The module \<^verbatim>\<open>cjsminus.js\<close> is modelled function by function, each body as it is
  written. Conventions of the embedding:
  \<^item> JavaScript values are \<open>jsval\<close>; objects live in a heap (a list indexed by address),
    so that identity, aliasing and mutation through a reference are visible. A reference
    beyond the end of the heap is not a value of any run; it reads as an object with no
    properties.
  \<^item> An object carries its own data properties in the order the host lists them
    (\<^verbatim>\<open>Object.getOwnPropertyNames\<close>, \<^verbatim>\<open>Object.getOwnPropertySymbols\<close>), its prototype
    link, whether it is frozen and whether it is callable. A prototype link \<open>Null\<close>
    ends the modelled chain: beyond it stands the host's \<^verbatim>\<open>Object.prototype\<close> with its
    built-in methods. Accessor properties are outside the model.
  \<^item> A function object carries no code. Where the normalizer calls a function it finds
    in an object of the user, the call is a parameter: \<open>call f this args\<close> is the state
    transformer that the call of the function value \<open>f\<close> is.
  \<^item> Numbers are integers or \<open>NaN\<close>.
  \<^item> A \<^verbatim>\<open>throw\<close> is the \<open>Inl\<close> of a sum; a function that touches shared state
    returns its result together with the new state.
  \<^item> The module code is not strict, so an assignment that the host refuses (a frozen
    holder) is skipped silently.
  \<^item> The file uses some names it never declares. \<^verbatim>\<open>stack\<close>, \<^verbatim>\<open>proxyMap\<close> are shared
    tables and are components of the state; \<^verbatim>\<open>PVT_DATA\<close> and \<^verbatim>\<open>useStrings\<close> are
    parameters (\<open>pvt\<close>, \<open>us\<close>). \<^verbatim>\<open>prototype\<close> inside \<^verbatim>\<open>disconnect\<close>, \<^verbatim>\<open>Obj\<close> and
    \<^verbatim>\<open>Classic\<close> occur once each, bound by nothing: reading them raises the host's
    ReferenceError, and that is how they are modelled.
  \<^item> \<^verbatim>\<open>PLACEHOLDER\<close>, \<^verbatim>\<open>PRIVATE_LAYER\<close> and \<^verbatim>\<open>CLASS_ID\<close> are taken as the symbols the
    file means them to be, and the static API of lines 452-628 as installed on
    \<^verbatim>\<open>ClassicM\<close>.
\<close>

datatype symbol =
    AccessLevels_Private | AccessLevels_Protected | AccessLevels_Public | AccessLevels_Static
  | ClassConfigKeys_ClassName | ClassConfigKeys_InheritMode
  | ClassConstants_CLASS | ClassConstants_ABSTRACT | ClassConstants_FINAL
  | PLACEHOLDER | PRIVATE_LAYER | CLASS_ID
  | UserSymbol nat

type_synonym addr = nat

datatype jsval =
    Undefined | Null | Bool bool | Num int | NaN | Str string | Sym symbol | Ref addr

datatype key = KStr string | KSym symbol

datatype error = TypeError string | SyntaxError string | ReferenceError string

record jsobj =
  props :: "(key \<times> jsval) list"
  proto :: jsval
  frozen :: bool
  callable :: bool

type_synonym heap = "jsobj list"

text \<open>A \<^verbatim>\<open>WeakMap\<close> is an association list keyed by object references.\<close>

type_synonym weakmap = "(jsval \<times> jsval) list"

record state =
  heap :: heap
  classDefs :: weakmap
  initFns :: weakmap
  owners :: weakmap
  connections :: weakmap
  stack :: "jsval list"
  proxyMap :: weakmap
  hostObject :: jsval

text \<open>A JavaScript function, as the state transformer its call is.\<close>

type_synonym jsfun = "jsval \<Rightarrow> jsval list \<Rightarrow> state \<Rightarrow> (error + jsval) \<times> state"

definition weak_has :: "weakmap \<Rightarrow> jsval \<Rightarrow> bool" where
  "weak_has m k = (map_of m k \<noteq> None)"

definition weak_get :: "weakmap \<Rightarrow> jsval \<Rightarrow> jsval" where
  "weak_get m k = (case map_of m k of None \<Rightarrow> Undefined | Some v \<Rightarrow> v)"

definition weak_set :: "weakmap \<Rightarrow> jsval \<Rightarrow> jsval \<Rightarrow> weakmap" where
  "weak_set m k v = (k, v) # filter (\<lambda>p. fst p \<noteq> k) m"

fun truthy :: "jsval \<Rightarrow> bool" where
  "truthy Undefined = False"
| "truthy Null = False"
| "truthy (Bool b) = b"
| "truthy (Num n) = (n \<noteq> 0)"
| "truthy NaN = False"
| "truthy (Str s) = (s \<noteq> [])"
| "truthy (Sym s) = True"
| "truthy (Ref a) = True"

definition empty_obj :: jsobj where
  "empty_obj = \<lparr>props = [], proto = Null, frozen = False, callable = False\<rparr>"

definition obj_at :: "heap \<Rightarrow> addr \<Rightarrow> jsobj" where
  "obj_at h a = (if a < length h then h ! a else empty_obj)"

fun typeof :: "heap \<Rightarrow> jsval \<Rightarrow> string" where
  "typeof h Undefined = ''undefined''"
| "typeof h Null = ''object''"
| "typeof h (Bool b) = ''boolean''"
| "typeof h (Num n) = ''number''"
| "typeof h NaN = ''number''"
| "typeof h (Str s) = ''string''"
| "typeof h (Sym s) = ''symbol''"
| "typeof h (Ref a) = (if callable (obj_at h a) then ''function'' else ''object'')"

section \<open>Property access\<close>

definition own_has :: "heap \<Rightarrow> addr \<Rightarrow> key \<Rightarrow> bool" where
  "own_has h a k = (map_of (props (obj_at h a)) k \<noteq> None)"

definition own_get :: "heap \<Rightarrow> addr \<Rightarrow> key \<Rightarrow> jsval" where
  "own_get h a k = (case map_of (props (obj_at h a)) k of None \<Rightarrow> Undefined | Some v \<Rightarrow> v)"

text \<open>
  The walk up the prototype chain to the first object that owns the key. The host keeps
  chains acyclic (\<^verbatim>\<open>Object.setPrototypeOf\<close> refuses a cycle), so a chain has at most
  as many objects as the heap, and that many steps reach its end.
\<close>

fun find_holder :: "nat \<Rightarrow> heap \<Rightarrow> jsval \<Rightarrow> key \<Rightarrow> addr option" where
  "find_holder 0 h v k = None"
| "find_holder (Suc n) h (Ref a) k =
     (if own_has h a k then Some a else find_holder n h (proto (obj_at h a)) k)"
| "find_holder (Suc n) h v k = None"

definition holder :: "heap \<Rightarrow> addr \<Rightarrow> key \<Rightarrow> addr option" where
  "holder h a k = find_holder (length h) h (Ref a) k"

text \<open>\<^verbatim>\<open>k in o\<close> and \<^verbatim>\<open>o[k]\<close> for an object \<open>o\<close>.\<close>

definition has_property :: "heap \<Rightarrow> addr \<Rightarrow> key \<Rightarrow> bool" where
  "has_property h a k = (holder h a k \<noteq> None)"

definition get_prop :: "heap \<Rightarrow> addr \<Rightarrow> key \<Rightarrow> jsval" where
  "get_prop h a k = (case holder h a k of None \<Rightarrow> Undefined | Some b \<Rightarrow> own_get h b k)"

text \<open>
  \<^verbatim>\<open>v[k]\<close> for any value: reading a property of \<^verbatim>\<open>undefined\<close> or \<^verbatim>\<open>null\<close> throws.
  Of the properties of a primitive only a string's \<^verbatim>\<open>length\<close> is modelled.
\<close>

fun js_get :: "heap \<Rightarrow> jsval \<Rightarrow> key \<Rightarrow> error + jsval" where
  "js_get h Undefined k = Inl (TypeError ''Cannot read properties of undefined'')"
| "js_get h Null k = Inl (TypeError ''Cannot read properties of null'')"
| "js_get h (Ref a) k = Inr (get_prop h a k)"
| "js_get h (Str s) k = Inr (if k = KStr ''length'' then Num (int (length s)) else Undefined)"
| "js_get h v k = Inr Undefined"

fun js_in :: "heap \<Rightarrow> key \<Rightarrow> jsval \<Rightarrow> error + bool" where
  "js_in h k (Ref a) = Inr (has_property h a k)"
| "js_in h k v = Inl (TypeError ''Cannot use the in operator on a value that is not an object'')"

text \<open>
  \<^verbatim>\<open>o[k] = v\<close> for an object \<open>o\<close>: the assignment is refused when the holder of the
  property is frozen (the property is read-only) or when \<open>o\<close> itself is; refused
  assignments are skipped. Otherwise \<open>o\<close>'s own property is updated, or appended.
\<close>

definition set_own :: "heap \<Rightarrow> addr \<Rightarrow> key \<Rightarrow> jsval \<Rightarrow> heap" where
  "set_own h a k v =
     (if a < length h then h[a := (h ! a)\<lparr>props := AList.update k v (props (h ! a))\<rparr>] else h)"

definition js_set :: "heap \<Rightarrow> addr \<Rightarrow> key \<Rightarrow> jsval \<Rightarrow> heap" where
  "js_set h a k v =
     (case holder h a k of
        Some b \<Rightarrow> if frozen (obj_at h b) then h
                  else if frozen (obj_at h a) then h else set_own h a k v
      | None \<Rightarrow> if frozen (obj_at h a) then h else set_own h a k v)"

fun js_put :: "heap \<Rightarrow> jsval \<Rightarrow> key \<Rightarrow> jsval \<Rightarrow> error + heap" where
  "js_put h Undefined k v = Inl (TypeError ''Cannot set properties of undefined'')"
| "js_put h Null k v = Inl (TypeError ''Cannot set properties of null'')"
| "js_put h (Ref a) k v = Inr (js_set h a k v)"
| "js_put h w k v = Inr h"

fun getPrototypeOf :: "heap \<Rightarrow> jsval \<Rightarrow> error + jsval" where
  "getPrototypeOf h Undefined = Inl (TypeError ''Cannot convert undefined or null to object'')"
| "getPrototypeOf h Null = Inl (TypeError ''Cannot convert undefined or null to object'')"
| "getPrototypeOf h (Ref a) = Inr (proto (obj_at h a))"
| "getPrototypeOf h v = Inr Null"

subsection \<open>Keys of an object\<close>

definition digit_chars :: string where
  "digit_chars = ''0123456789''"

fun string_of_nat :: "nat \<Rightarrow> string" where
  "string_of_nat n =
     (if n < 10 then [digit_chars ! n]
      else string_of_nat (n div 10) @ [digit_chars ! (n mod 10)])"

definition string_of_int :: "int \<Rightarrow> string" where
  "string_of_int i = (if i < 0 then CHR ''-'' # string_of_nat (nat (- i)) else string_of_nat (nat i))"

text \<open>
  The property key a value stands for in \<^verbatim>\<open>o[v]\<close> and \<^verbatim>\<open>o.hasOwnProperty(v)\<close>. The
  module computes keys from strings, symbols and \<^verbatim>\<open>undefined\<close>; a plain object
  converts to the host's \<^verbatim>\<open>[object Object]\<close>.
\<close>

fun to_property_key :: "jsval \<Rightarrow> key" where
  "to_property_key (Sym s) = KSym s"
| "to_property_key (Str s) = KStr s"
| "to_property_key Undefined = KStr ''undefined''"
| "to_property_key Null = KStr ''null''"
| "to_property_key (Bool b) = KStr (if b then ''true'' else ''false'')"
| "to_property_key (Num n) = KStr (string_of_int n)"
| "to_property_key NaN = KStr ''NaN''"
| "to_property_key (Ref a) = KStr ''[object Object]''"

fun is_name :: "key \<Rightarrow> bool" where
  "is_name (KStr s) = True"
| "is_name (KSym s) = False"

fun is_symbol :: "key \<Rightarrow> bool" where
  "is_symbol (KStr s) = False"
| "is_symbol (KSym s) = True"

definition own_keys :: "heap \<Rightarrow> addr \<Rightarrow> key list" where
  "own_keys h a = map fst (props (obj_at h a))"

definition string_keys :: "string \<Rightarrow> key list" where
  "string_keys s = map (\<lambda>i. KStr (string_of_nat i)) [0..<length s] @ [KStr ''length'']"

fun getOwnPropertyNames :: "heap \<Rightarrow> jsval \<Rightarrow> error + key list" where
  "getOwnPropertyNames h Undefined = Inl (TypeError ''Cannot convert undefined or null to object'')"
| "getOwnPropertyNames h Null = Inl (TypeError ''Cannot convert undefined or null to object'')"
| "getOwnPropertyNames h (Ref a) = Inr (filter is_name (own_keys h a))"
| "getOwnPropertyNames h (Str s) = Inr (string_keys s)"
| "getOwnPropertyNames h v = Inr []"

fun getOwnPropertySymbols :: "heap \<Rightarrow> jsval \<Rightarrow> error + key list" where
  "getOwnPropertySymbols h Undefined = Inl (TypeError ''Cannot convert undefined or null to object'')"
| "getOwnPropertySymbols h Null = Inl (TypeError ''Cannot convert undefined or null to object'')"
| "getOwnPropertySymbols h (Ref a) = Inr (filter is_symbol (own_keys h a))"
| "getOwnPropertySymbols h v = Inr []"

text \<open>
  The host's built-in \<^verbatim>\<open>hasOwnProperty\<close>, for a receiver that is neither \<^verbatim>\<open>undefined\<close>
  nor \<^verbatim>\<open>null\<close>.
\<close>

fun hasOwnProperty :: "heap \<Rightarrow> jsval \<Rightarrow> key \<Rightarrow> bool" where
  "hasOwnProperty h (Ref a) k = own_has h a k"
| "hasOwnProperty h (Str s) k = (k \<in> set (string_keys s))"
| "hasOwnProperty h v k = False"

fun isFrozen :: "heap \<Rightarrow> jsval \<Rightarrow> bool" where
  "isFrozen h (Ref a) = frozen (obj_at h a)"
| "isFrozen h v = True"

text \<open>Lines 95-99.\<close>

definition getAllKeys :: "heap \<Rightarrow> jsval \<Rightarrow> error + key list" where
  "getAllKeys h obj =
     (case getOwnPropertyNames h obj of
        Inl e \<Rightarrow> Inl e
      | Inr names \<Rightarrow>
          (case getOwnPropertySymbols h obj of
             Inl e \<Rightarrow> Inl e
           | Inr symbols \<Rightarrow> Inr (names @ symbols)))"

subsection \<open>Numbers\<close>

text \<open>
  The conversion \<^verbatim>\<open>++\<close> and \<^verbatim>\<open>--\<close> apply to their operand. A symbol cannot be
  converted. Strings other than the empty one and objects go through the host's parser
  and \<^verbatim>\<open>valueOf\<close>, which are outside the model: they read as \<open>NaN\<close>.
\<close>

fun to_number :: "jsval \<Rightarrow> error + jsval" where
  "to_number Undefined = Inr NaN"
| "to_number Null = Inr (Num 0)"
| "to_number (Bool b) = Inr (Num (if b then 1 else 0))"
| "to_number (Num n) = Inr (Num n)"
| "to_number NaN = Inr NaN"
| "to_number (Str s) = Inr (if s = [] then Num 0 else NaN)"
| "to_number (Sym s) = Inl (TypeError ''Cannot convert a Symbol value to a number'')"
| "to_number (Ref a) = Inr NaN"

fun num_add :: "jsval \<Rightarrow> int \<Rightarrow> jsval" where
  "num_add (Num n) d = Num (n + d)"
| "num_add v d = NaN"

text \<open>\<^verbatim>\<open>++o[p].count\<close> (\<open>d = 1\<close>) and \<^verbatim>\<open>--o[p].count\<close> (\<open>d = -1\<close>).\<close>

definition bump_count :: "heap \<Rightarrow> jsval \<Rightarrow> key \<Rightarrow> int \<Rightarrow> error + heap" where
  "bump_count h obj p d =
     (case js_get h obj p of
        Inl e \<Rightarrow> Inl e
      | Inr layer \<Rightarrow>
          (case js_get h layer (KStr ''count'') of
             Inl e \<Rightarrow> Inl e
           | Inr c \<Rightarrow>
               (case to_number c of
                  Inl e \<Rightarrow> Inl e
                | Inr n \<Rightarrow> js_put h layer (KStr ''count'') (num_add n d))))"

section \<open>The Function Identity Wrapper\<close>

text \<open>
  \<^verbatim>\<open>makePvtName\<close> (lines 121-161) builds, through \<^verbatim>\<open>eval\<close>, the function
  \<^verbatim>\<open>
  (function NAME(...args) {
      let inst = proxyMap.get(this) || this;
      stack.push(NAME);
      let retval = fn.apply(inst, args);
      stack.pop();
      return retval;
  })
  \<close>
  Inside it \<^verbatim>\<open>NAME\<close> is the function's own name, so what is pushed is the wrapper
  itself: \<open>self\<close> below. \<^verbatim>\<open>push\<close> appends to the array and \<^verbatim>\<open>pop\<close> removes its last
  element (none when it is empty). There is no \<^verbatim>\<open>try\<close> around the call of \<^verbatim>\<open>fn\<close>: an
  exception of \<^verbatim>\<open>fn\<close> leaves the wrapper at once.
\<close>

definition makePvtName_wrapper :: "jsval \<Rightarrow> jsfun \<Rightarrow> jsfun" where
  "makePvtName_wrapper self fn this args st =
     (let inst = (if truthy (weak_get (proxyMap st) this) then weak_get (proxyMap st) this else this);
          st1 = st\<lparr>stack := stack st @ [self]\<rparr>
      in case fn inst args st1 of
           (Inl e, st2) \<Rightarrow> (Inl e, st2)
         | (Inr retval, st2) \<Rightarrow> (Inr retval, st2\<lparr>stack := butlast (stack st2)\<rparr>))"

text \<open>
  The rest of \<^verbatim>\<open>makePvtName\<close> creates the wrapper's function object, gives it the
  properties \<^verbatim>\<open>displayName\<close>, \<^verbatim>\<open>owner\<close> and \<^verbatim>\<open>length\<close> (and the function-valued
  \<^verbatim>\<open>bind\<close> and \<^verbatim>\<open>toString\<close>, which are not data and are left out), and records the
  owner in \<^verbatim>\<open>owners\<close>. \<open>name\<close> is the random name \<^verbatim>\<open>makeFnName\<close> drew; \<open>fn_name\<close> and
  \<open>fn_length\<close> are \<^verbatim>\<open>fn.name\<close> and \<^verbatim>\<open>fn.length\<close>.
\<close>

definition makePvtName ::
  "string \<Rightarrow> string \<Rightarrow> jsval \<Rightarrow> jsfun \<Rightarrow> jsval \<Rightarrow> state \<Rightarrow> (jsval \<times> jsfun) \<times> state" where
  "makePvtName name fn_name fn_length fn owner st =
     (let self = Ref (length (heap st));
          fobj = \<lparr>props = [(KStr ''displayName'', Str (fn_name @ '' wrapper (as '' @ name @ '')'')),
                            (KStr ''owner'', owner),
                            (KStr ''length'', fn_length)],
                  proto = Null, frozen = False, callable = True\<rparr>
      in ((self, makePvtName_wrapper self fn),
          st\<lparr>heap := heap st @ [fobj], owners := weak_set (owners st) self owner\<rparr>))"

section \<open>The definition vocabulary\<close>

text \<open>
  The static API block (lines 452-628) defines on \<^verbatim>\<open>ClassicM\<close> the flags
  \<^verbatim>\<open>PrivateAccessSpecifier\<close> and \<^verbatim>\<open>UseStrings\<close>, the nine vocabulary getters
  below, each \<^verbatim>\<open>useStrings ? "name" : Symbol\<close>, and the functions \<^verbatim>\<open>init\<close>,
  \<^verbatim>\<open>isPlaceHolder\<close> and \<^verbatim>\<open>getInitValue\<close>. The module reads the vocabulary, and
  in one place \<^verbatim>\<open>ClassicM.PLACEHOLDER\<close>: nothing defines a property of that name, so
  it reads \<^verbatim>\<open>undefined\<close>.
\<close>

definition ClassicM_api :: "bool \<Rightarrow> (string \<times> jsval) list" where
  "ClassicM_api us =
     [(''STATIC'', if us then Str ''static'' else Sym AccessLevels_Static),
      (''PRIVATE'', if us then Str ''private'' else Sym AccessLevels_Private),
      (''PROTECTED'', if us then Str ''protected'' else Sym AccessLevels_Protected),
      (''PUBLIC'', if us then Str ''public'' else Sym AccessLevels_Public),
      (''CLASSNAME'', if us then Str ''className'' else Sym ClassConfigKeys_ClassName),
      (''INHERITMODE'', if us then Str ''inheritMode'' else Sym ClassConfigKeys_InheritMode),
      (''CLASS'', if us then Str ''cla$$'' else Sym ClassConstants_CLASS),
      (''ABSTRACT'', if us then Str ''abstract'' else Sym ClassConstants_ABSTRACT),
      (''FINAL'', if us then Str ''final'' else Sym ClassConstants_FINAL)]"

definition ClassicM_prop :: "bool \<Rightarrow> string \<Rightarrow> jsval" where
  "ClassicM_prop us p = (case map_of (ClassicM_api us) p of None \<Rightarrow> Undefined | Some v \<Rightarrow> v)"

text \<open>The four region keys and the two configuration keys, as property keys.\<close>

definition STATIC :: "bool \<Rightarrow> key" where
  "STATIC us = to_property_key (ClassicM_prop us ''STATIC'')"

definition PRIVATE :: "bool \<Rightarrow> key" where
  "PRIVATE us = to_property_key (ClassicM_prop us ''PRIVATE'')"

definition PROTECTED :: "bool \<Rightarrow> key" where
  "PROTECTED us = to_property_key (ClassicM_prop us ''PROTECTED'')"

definition PUBLIC :: "bool \<Rightarrow> key" where
  "PUBLIC us = to_property_key (ClassicM_prop us ''PUBLIC'')"

definition CLASSNAME :: "bool \<Rightarrow> key" where
  "CLASSNAME us = to_property_key (ClassicM_prop us ''CLASSNAME'')"

definition INHERITMODE :: "bool \<Rightarrow> key" where
  "INHERITMODE us = to_property_key (ClassicM_prop us ''INHERITMODE'')"

section \<open>The Definition Normalizer\<close>

text \<open>
  A template literal converts what it interpolates to a string, and the host refuses to
  convert a symbol: \<^verbatim>\<open>`${key}`\<close> throws a TypeError when \<^verbatim>\<open>key\<close> is a symbol. Both
  error messages of \<^verbatim>\<open>fixupData\<close> are built this way, so what its two \<^verbatim>\<open>throw\<close>
  statements raise depends on the key.
\<close>

definition template_key :: "key \<Rightarrow> error + string" where
  "template_key k =
     (case k of
        KStr s \<Rightarrow> Inr s
      | KSym y \<Rightarrow> Inl (TypeError ''Cannot convert a Symbol value to a string''))"

text \<open>Line 215: \<^verbatim>\<open>throw new SyntaxError(`Class definition contains duplicate key name: ${key}`)\<close>.\<close>

definition duplicate_error :: "key \<Rightarrow> error" where
  "duplicate_error k =
     (case template_key k of
        Inl e \<Rightarrow> e
      | Inr s \<Rightarrow> SyntaxError (''Class definition contains duplicate key name: '' @ s))"

text \<open>
  Lines 231 and 248: \<^verbatim>\<open>throw new TypeError(`Expected property "PATH${entry}" to be an object.`)\<close>,
  where \<open>path\<close> is \<^verbatim>\<open>data.\<close> or \<^verbatim>\<open>data[ClassicM.STATIC].\<close>.
\<close>

definition shape_error :: "string \<Rightarrow> key \<Rightarrow> error" where
  "shape_error path entry =
     (case template_key entry of
        Inl e \<Rightarrow> e
      | Inr s \<Rightarrow> TypeError (''Expected property '' @ [CHR 0x22] @ path @ s @ [CHR 0x22]
                              @ '' to be an object.''))"

text \<open>
  Lines 211-220. \<open>duplicates\<close> is the set of keys seen so far, as the list of its
  elements in insertion order.
\<close>

fun checkForDuplicates_loop :: "key list \<Rightarrow> key list \<Rightarrow> error + key list" where
  "checkForDuplicates_loop duplicates [] = Inr duplicates"
| "checkForDuplicates_loop duplicates (k # ks) =
     (if k \<in> set duplicates then Inl (duplicate_error k)
      else checkForDuplicates_loop (duplicates @ [k]) ks)"

definition checkForDuplicates :: "heap \<Rightarrow> key list \<Rightarrow> jsval \<Rightarrow> error + key list" where
  "checkForDuplicates h duplicates obj =
     (case getAllKeys h obj of
        Inl e \<Rightarrow> Inl e
      | Inr keys \<Rightarrow> checkForDuplicates_loop duplicates keys)"

text \<open>The calls of the function objects of the heap.\<close>

type_synonym calls = "jsval \<Rightarrow> jsfun"

text \<open>The value a property key was computed from, for the keys of the vocabulary.\<close>

fun key_value :: "key \<Rightarrow> jsval" where
  "key_value (KStr s) = Str s"
| "key_value (KSym y) = Sym y"

text \<open>
  \<^verbatim>\<open>v.hasOwnProperty(k)\<close> in lines 228 and 245: a property lookup, then a call. When
  the receiver is an object and neither it nor an object of its modelled prototype chain
  has a property \<^verbatim>\<open>hasOwnProperty\<close>, the lookup ends at the host's built-in. A property
  of that name shadows the built-in: it is called if it is a function, and otherwise the
  host throws its TypeError. \<open>what\<close> is the text of the receiver in that message.
\<close>

fun call_hasOwnProperty ::
  "calls \<Rightarrow> string \<Rightarrow> jsval \<Rightarrow> key \<Rightarrow> state \<Rightarrow> (error + jsval) \<times> state" where
  "call_hasOwnProperty call what (Ref a) k st =
     (if has_property (heap st) a (KStr ''hasOwnProperty'') then
        (let f = get_prop (heap st) a (KStr ''hasOwnProperty'') in
         if typeof (heap st) f = ''function'' then call f (Ref a) [key_value k] st
         else (Inl (TypeError (what @ ''.hasOwnProperty is not a function'')), st))
      else (Inr (Bool (own_has (heap st) a k)), st))"
| "call_hasOwnProperty call what Undefined k st =
     (Inl (TypeError ''Cannot read properties of undefined''), st)"
| "call_hasOwnProperty call what Null k st =
     (Inl (TypeError ''Cannot read properties of null''), st)"
| "call_hasOwnProperty call what v k st = (Inr (Bool (hasOwnProperty (heap st) v k)), st)"

text \<open>
  Lines 227-239, the first \<^verbatim>\<open>a.forEach\<close>; \<open>data\<close> and \<open>retval\<close> are the addresses of
  the two objects.
\<close>

fun fixupData_regions ::
  "calls \<Rightarrow> addr \<Rightarrow> addr \<Rightarrow> key list \<Rightarrow> key list \<Rightarrow> state \<Rightarrow> (error + key list) \<times> state" where
  "fixupData_regions call data retval [] duplicates st = (Inr duplicates, st)"
| "fixupData_regions call data retval (entry # es) duplicates st =
     (case call_hasOwnProperty call ''data'' (Ref data) entry st of
        (Inl e, st1) \<Rightarrow> (Inl e, st1)
      | (Inr own, st1) \<Rightarrow>
          if truthy own then
            (let item = get_prop (heap st1) data entry in
             if truthy item \<and> typeof (heap st1) item \<noteq> ''object''
             then (Inl (shape_error ''data.'' entry), st1)
             else (case checkForDuplicates (heap st1) duplicates item of
                     Inl e \<Rightarrow> (Inl e, st1)
                   | Inr duplicates' \<Rightarrow>
                       fixupData_regions call data retval es duplicates'
                         (st1\<lparr>heap := js_set (heap st1) retval entry item\<rparr>)))
          else fixupData_regions call data retval es duplicates
                 (st1\<lparr>heap := js_set (heap st1) retval entry Undefined\<rparr>))"

text \<open>
  Lines 244-256, the second \<^verbatim>\<open>a.forEach\<close>; \<open>sk\<close> is \<^verbatim>\<open>ClassicM.STATIC\<close>. The test of
  line 245 is \<^verbatim>\<open>data[ClassicM.STATIC] && data[ClassicM.STATIC].hasOwnProperty(entry)\<close>:
  its value is the first operand when that is not truthy. The item that passed the checks
  is assigned to \<^verbatim>\<open>retval[entry]\<close> (line 251), the missing one to
  \<^verbatim>\<open>retval[ClassicM.STATIC][entry]\<close> (line 254).
\<close>

fun fixupData_static ::
  "calls \<Rightarrow> key \<Rightarrow> addr \<Rightarrow> addr \<Rightarrow> key list \<Rightarrow> key list \<Rightarrow> state
     \<Rightarrow> (error + key list) \<times> state" where
  "fixupData_static call sk data retval [] duplicates st = (Inr duplicates, st)"
| "fixupData_static call sk data retval (entry # es) duplicates st =
     (let ds = get_prop (heap st) data sk in
      case (if truthy ds
            then call_hasOwnProperty call ''data[ClassicM.STATIC]'' ds entry st
            else (Inr ds, st)) of
        (Inl e, st1) \<Rightarrow> (Inl e, st1)
      | (Inr own, st1) \<Rightarrow>
          if truthy own then
            (case js_get (heap st1) (get_prop (heap st1) data sk) entry of
               Inl e \<Rightarrow> (Inl e, st1)
             | Inr item \<Rightarrow>
                 if truthy item \<and> typeof (heap st1) item \<noteq> ''object''
                 then (Inl (shape_error ''data[ClassicM.STATIC].'' entry), st1)
                 else (case checkForDuplicates (heap st1) duplicates item of
                         Inl e \<Rightarrow> (Inl e, st1)
                       | Inr duplicates' \<Rightarrow>
                           fixupData_static call sk data retval es duplicates'
                             (st1\<lparr>heap := js_set (heap st1) retval entry item\<rparr>)))
          else
            (case js_put (heap st1) (get_prop (heap st1) retval sk) entry Undefined of
               Inl e \<Rightarrow> (Inl e, st1)
             | Inr h' \<Rightarrow> fixupData_static call sk data retval es duplicates (st1\<lparr>heap := h'\<rparr>)))"

text \<open>
  Lines 207-225: the object literal of line 207 allocates \<open>retval\<close> and then the empty
  object of its \<^verbatim>\<open>STATIC\<close> property; then \<open>retval\<close> gets its class name and its
  inheritance mode. The result is the heap in which the first loop starts.
\<close>

definition fixupData_start :: "bool \<Rightarrow> addr \<Rightarrow> heap \<Rightarrow> heap" where
  "fixupData_start us data h =
     (let retval = length h;
          h1 = h @ [empty_obj\<lparr>props := [(STATIC us, Ref (Suc retval))]\<rparr>, empty_obj];
          className = get_prop h1 data (CLASSNAME us);
          h2 = js_set h1 retval (CLASSNAME us)
                 (if truthy className then className else Str ''ClassBase'');
          inheritMode = get_prop h2 data (INHERITMODE us)
      in js_set h2 retval (INHERITMODE us)
           (if inheritMode \<in> {ClassicM_prop us ''ABSTRACT'', ClassicM_prop us ''FINAL'', Undefined}
            then inheritMode else Undefined))"

text \<open>
  Lines 206-259. \<^verbatim>\<open>ClassicM\<close>, its only caller, passes an object (lines 389-415), so
  \<open>data\<close> is an address; \<open>a\<close> is the set of line 208, in insertion order.
\<close>

definition fixupData :: "calls \<Rightarrow> bool \<Rightarrow> addr \<Rightarrow> state \<Rightarrow> (error + jsval) \<times> state" where
  "fixupData call us data st =
     (let retval = length (heap st);
          a = [STATIC us, PRIVATE us, PROTECTED us, PUBLIC us]
      in case fixupData_regions call data retval a []
                (st\<lparr>heap := fixupData_start us data (heap st)\<rparr>) of
           (Inl e, st4) \<Rightarrow> (Inl e, st4)
         | (Inr duplicates, st4) \<Rightarrow>
             if truthy (get_prop (heap st4) retval (STATIC us)) then
               (case fixupData_static call (STATIC us) data retval
                       (removeAll (STATIC us) a) [] st4 of
                  (Inl e, st5) \<Rightarrow> (Inl e, st5)
                | (Inr duplicates', st5) \<Rightarrow> (Inr (Ref retval), st5))
             else (Inr (Ref retval), st4))"

section \<open>The Layer Connector and Disconnector\<close>

text \<open>Lines 261-263: the body is empty, so the call evaluates to \<^verbatim>\<open>undefined\<close>.\<close>

definition validateAccess :: "jsval \<Rightarrow> jsval \<Rightarrow> jsval" where
  "validateAccess obj depth = Undefined"

text \<open>
  Lines 271-290. \<open>pvt\<close> is the key \<^verbatim>\<open>PVT_DATA\<close> and \<open>id'\<close> the parameter \<^verbatim>\<open>id\<close>. In line 278 the argument
  \<^verbatim>\<open>Obj.freeze({...})\<close> is evaluated before \<^verbatim>\<open>Object.setPrototypeOf\<close> is called, and
  \<^verbatim>\<open>Obj\<close> is bound by nothing.
\<close>

definition connect :: "key \<Rightarrow> jsval \<Rightarrow> jsval \<Rightarrow> jsval \<Rightarrow> state \<Rightarrow> (error + jsval) \<times> state" where
  "connect pvt this obj id' st =
     (if \<not> truthy (validateAccess this (Num 1)) then (Inl (TypeError ''Inaccessible''), st)
      else if \<not> weak_has (connections st) obj then (Inl (TypeError ''Inaccessible''), st)
      else
        (let instanceData = weak_get (connections st) obj in
         case getPrototypeOf (heap st) obj of
           Inl e \<Rightarrow> (Inl e, st)
         | Inr prototype \<Rightarrow>
             (case js_in (heap st) pvt obj of
                Inl e \<Rightarrow> (Inl e, st)
              | Inr False \<Rightarrow> (Inl (ReferenceError ''Obj is not defined''), st)
              | Inr True \<Rightarrow>
                  (case js_get (heap st) obj (to_property_key id') of
                     Inl e \<Rightarrow> (Inl e, st)
                   | Inr cur \<Rightarrow>
                       if typeof (heap st) cur \<noteq> ''object'' then
                         (case js_get (heap st) instanceData (to_property_key id') of
                            Inl e \<Rightarrow> (Inl e, st)
                          | Inr slot \<Rightarrow>
                              (case js_put (heap st) obj (to_property_key id') slot of
                                 Inl e \<Rightarrow> (Inl e, st)
                               | Inr h1 \<Rightarrow>
                                   (case bump_count h1 obj pvt 1 of
                                      Inl e \<Rightarrow> (Inl e, st\<lparr>heap := h1\<rparr>)
                                    | Inr h2 \<Rightarrow> (Inr Undefined, st\<lparr>heap := h2\<rparr>))))
                       else (Inr Undefined, st)))))"

text \<open>
  Lines 299-311. \<^verbatim>\<open>prototype\<close> is a local of \<^verbatim>\<open>connect\<close>; in \<^verbatim>\<open>disconnect\<close> nothing
  binds the name, so both calls of \<^verbatim>\<open>Object.setPrototypeOf(obj, prototype)\<close> fail
  while their arguments are evaluated.
\<close>

definition disconnect :: "key \<Rightarrow> jsval \<Rightarrow> jsval \<Rightarrow> state \<Rightarrow> (error + jsval) \<times> state" where
  "disconnect pvt obj id' st =
     (if id' = Null \<or> id' = Undefined
      then (Inl (ReferenceError ''prototype is not defined''), st)
      else
        (case js_in (heap st) pvt obj of
           Inl e \<Rightarrow> (Inl e, st)
         | Inr False \<Rightarrow> (Inr Undefined, st)
         | Inr True \<Rightarrow>
             (case js_put (heap st) obj (to_property_key id') Undefined of
                Inl e \<Rightarrow> (Inl e, st)
              | Inr h1 \<Rightarrow>
                  (case bump_count h1 obj pvt (- 1) of
                     Inl e \<Rightarrow> (Inl e, st\<lparr>heap := h1\<rparr>)
                   | Inr h2 \<Rightarrow>
                       (case js_get h2 obj pvt of
                          Inl e \<Rightarrow> (Inl e, st\<lparr>heap := h2\<rparr>)
                        | Inr layer \<Rightarrow>
                            (case js_get h2 layer (KStr ''count'') of
                               Inl e \<Rightarrow> (Inl e, st\<lparr>heap := h2\<rparr>)
                             | Inr count \<Rightarrow>
                                 if \<not> truthy count
                                 then (Inl (ReferenceError ''prototype is not defined''),
                                       st\<lparr>heap := h2\<rparr>)
                                 else (Inr Undefined, st\<lparr>heap := h2\<rparr>)))))))"

section \<open>The Class Factory\<close>

text \<open>
  Lines 389-415, the \<^verbatim>\<open>switch\<close> on \<^verbatim>\<open>arguments.length\<close>; the result is \<open>base\<close> and the
  address of \<open>data\<close>. In line 408 \<^verbatim>\<open>!typeof(base)\<close> is \<^verbatim>\<open>false\<close>, which is never
  \<^verbatim>\<open>=== "function"\<close>: that test throws nothing.
\<close>

definition ClassicM_arguments :: "jsval list \<Rightarrow> state \<Rightarrow> (error + jsval \<times> addr) \<times> state" where
  "ClassicM_arguments arguments st =
     (case arguments of
        [] \<Rightarrow> (Inr (hostObject st, length (heap st)), st\<lparr>heap := heap st @ [empty_obj]\<rparr>)
      | [base] \<Rightarrow>
          if typeof (heap st) base = ''function''
          then (Inr (base, length (heap st)), st\<lparr>heap := heap st @ [empty_obj]\<rparr>)
          else if typeof (heap st) base = ''object''
          then (case base of
                  Ref a \<Rightarrow> (Inr (hostObject st, a), st)
                | _ \<Rightarrow> (Inr (hostObject st, length (heap st)), st\<lparr>heap := heap st @ [empty_obj]\<rparr>))
          else (Inl (TypeError ''Invalid argument.''), st)
      | base # data # rest \<Rightarrow>
          (case data of
             Ref a \<Rightarrow>
               if typeof (heap st) data = ''object'' then (Inr (base, a), st)
               else (Inl (TypeError
                 ''Parameter 'base' must be a constructor function or undefined.''), st)
           | _ \<Rightarrow> (Inl (TypeError
                 ''Parameter 'base' must be a constructor function or undefined.''), st)))"

text \<open>
  Lines 387-443. After the definition is normalized, line 420 reads \<^verbatim>\<open>Classic.FINAL\<close>
  when the base is recorded in \<^verbatim>\<open>classDefs\<close>; nothing binds \<^verbatim>\<open>Classic\<close>. Line 431 is
  \<^verbatim>\<open>let newClass = eval(`()`)\<close>: the text \<^verbatim>\<open>()\<close> is not an expression, so \<^verbatim>\<open>eval\<close>
  throws a SyntaxError, and no statement after it runs. The function has no \<^verbatim>\<open>return\<close>.
\<close>

definition ClassicM ::
  "calls \<Rightarrow> bool \<Rightarrow> jsval list \<Rightarrow> state \<Rightarrow> (error + jsval) \<times> state" where
  "ClassicM call us arguments st =
     (case ClassicM_arguments arguments st of
        (Inl e, st1) \<Rightarrow> (Inl e, st1)
      | (Inr (base, data), st1) \<Rightarrow>
          (case fixupData call us data st1 of
             (Inl e, st2) \<Rightarrow> (Inl e, st2)
           | (Inr definition, st2) \<Rightarrow>
               if weak_has (classDefs st2) base then
                 (case js_get (heap st2) (weak_get (classDefs st2) base) (INHERITMODE us) of
                    Inl e \<Rightarrow> (Inl e, st2)
                  | Inr mode \<Rightarrow> (Inl (ReferenceError ''Classic is not defined''), st2))
               else
                 (let className = (if truthy (get_prop (heap st2) data (CLASSNAME us))
                                   then get_prop (heap st2) data (CLASSNAME us) else Str [])
                  in (Inl (SyntaxError ''Unexpected token )''), st2))))"

section \<open>The Placeholder Registry\<close>

text \<open>
  Lines 583-591. The object literal \<^verbatim>\<open>{ [PLACEHOLDER]: { value: void 0 } }\<close> gives the
  marker one property, keyed by the symbol, whose value is the inner object
  \<^verbatim>\<open>{ value: undefined }\<close>; \<^verbatim>\<open>Object.freeze\<close> freezes the marker.
\<close>

definition init :: "jsval \<Rightarrow> state \<Rightarrow> (error + jsval) \<times> state" where
  "init fn st =
     (if typeof (heap st) fn \<noteq> ''function''
      then (Inl (TypeError ''Init must be passed an initialization function!''), st)
      else
        (let retval = length (heap st);
             marker = \<lparr>props = [(KSym PLACEHOLDER, Ref (Suc retval))], proto = Null,
                       frozen = True, callable = False\<rparr>;
             inner = empty_obj\<lparr>props := [(KStr ''value'', Undefined)]\<rparr>
         in (Inr (Ref retval),
             st\<lparr>heap := heap st @ [marker, inner],
                initFns := weak_set (initFns st) (Ref retval) fn\<rparr>)))"

text \<open>
  Lines 602-610. A chain of \<^verbatim>\<open>&&\<close> evaluates to its first operand that is not truthy,
  or to its last operand.
\<close>

definition isPlaceHolder :: "bool \<Rightarrow> jsval \<Rightarrow> state \<Rightarrow> error + jsval" where
  "isPlaceHolder us val st =
     (if \<not> truthy val then Inr val
      else if typeof (heap st) val \<noteq> ''object'' then Inr (Bool False)
      else if \<not> isFrozen (heap st) val then Inr (Bool False)
      else
        (case getOwnPropertyNames (heap st) val of
           Inl e \<Rightarrow> Inl e
         | Inr names \<Rightarrow>
             if length names \<noteq> 0 then Inr (Bool False)
             else
               (case getOwnPropertySymbols (heap st) val of
                  Inl e \<Rightarrow> Inl e
                | Inr symbols \<Rightarrow>
                    if length symbols \<noteq> 1 then Inr (Bool False)
                    else if \<not> hasOwnProperty (heap st) val
                                (to_property_key (ClassicM_prop us ''PLACEHOLDER''))
                    then Inr (Bool False)
                    else
                      (case js_get (heap st) val (KSym PLACEHOLDER) of
                         Inl e \<Rightarrow> Inl e
                       | Inr v \<Rightarrow>
                           if v \<noteq> Undefined then Inr (Bool False)
                           else Inr (Bool (weak_has (initFns st) val))))))"

section \<open>Predicates of the statements\<close>







text \<open>
  A value of a region that the two checks before the duplicate loop let pass: the shape
  test of lines 230 and 247 (the value is not both truthy and of another type than
  \<^verbatim>\<open>object\<close>) and the key listing of \<^verbatim>\<open>getAllKeys\<close> (the value is neither \<^verbatim>\<open>null\<close>
  nor \<^verbatim>\<open>undefined\<close>). That is: an object of the heap that is not a function, or one
  of \<^verbatim>\<open>false\<close>, \<^verbatim>\<open>0\<close>, \<^verbatim>\<open>NaN\<close> and the empty string.
\<close>

fun accepted :: "heap \<Rightarrow> jsval \<Rightarrow> bool" where
  "accepted h (Ref x) = (x < length h \<and> \<not> callable (obj_at h x))"
| "accepted h Undefined = False"
| "accepted h Null = False"
| "accepted h v = (\<not> truthy v)"


section \<open>Example states\<close>

definition st0 :: state where
  "st0 = \<lparr>heap = [], classDefs = [], initFns = [], owners = [], connections = [],
          stack = [], proxyMap = [], hostObject = Undefined\<rparr>"

definition plain :: "(key \<times> jsval) list \<Rightarrow> jsobj" where
  "plain ps = \<lparr>props = ps, proto = Null, frozen = False, callable = False\<rparr>"

definition a_function :: jsobj where
  "a_function = \<lparr>props = [], proto = Null, frozen = False, callable = True\<rparr>"


text \<open>Two wrapped functions: one returns, one throws.\<close>

definition fn_returns :: jsfun where
  "fn_returns this args st = (Inr (Num 7), st)"

definition fn_throws :: jsfun where
  "fn_throws this args st = (Inl (TypeError ''boom''), st)"

text \<open>
  An instance (address 0) of a class whose prototype is at address 1, registered in
  \<^verbatim>\<open>connections\<close> with the slot (address 3) of the class identity token
  \<open>UserSymbol 7\<close>. In \<open>inst_connected\<close> the hidden layer line 278 means to build
  (address 4, frozen, with the counter record at address 5) is the instance's prototype.
\<close>

definition inst_detached :: state where
  "inst_detached = st0\<lparr>heap :=
       [\<lparr>props = [], proto = Ref 1, frozen = False, callable = False\<rparr>,
        plain [],
        plain [(KSym (UserSymbol 7), Ref 3)],
        plain [(KStr ''secret'', Num 42)]],
     connections := [(Ref 0, Ref 2)]\<rparr>"

definition inst_connected :: state where
  "inst_connected = st0\<lparr>heap :=
       [\<lparr>props = [], proto = Ref 4, frozen = False, callable = False\<rparr>,
        plain [],
        plain [(KSym (UserSymbol 7), Ref 3)],
        plain [(KStr ''secret'', Num 42)],
        \<lparr>props = [(KSym PRIVATE_LAYER, Ref 5), (KSym (UserSymbol 7), Ref 3)],
           proto = Null, frozen = True, callable = False\<rparr>,
        plain [(KStr ''count'', Num 1), (KStr ''prototype'', Ref 1)]],
     connections := [(Ref 0, Ref 2)]\<rparr>"












definition def_static :: state where
  "def_static = st0\<lparr>heap :=
       [plain [(KStr ''public'', Ref 1), (KStr ''static'', Ref 2)],
        plain [(KStr ''a'', Num 1)],
        plain [(KStr ''public'', Ref 3)],
        plain [(KStr ''b'', Num 2)]]\<rparr>"


text \<open>
  A state in which \<^verbatim>\<open>classDefs\<close> records the function at address 0 with a definition
  (address 2) whose inheritance mode is \<^verbatim>\<open>ClassicM.FINAL\<close>; address 1 is an empty raw
  definition.
\<close>

definition final_base :: state where
  "final_base = st0\<lparr>heap :=
       [a_function, plain [], plain [(KStr ''inheritMode'', Str ''final'')]],
     classDefs := [(Ref 0, Ref 2)]\<rparr>"

definition one_function :: state where
  "one_function = st0\<lparr>heap := [a_function]\<rparr>"

section \<open>The wrapper and the call-stack trace\<close>

text \<open>
  C1, as stated, fails: when the wrapped function throws, the wrapper is left before
  \<^verbatim>\<open>stack.pop()\<close>, and the wrapper's identity stays on the trace. Here the trace is
  empty before the call and holds the wrapper after it.
\<close>

theorem makePvtName_wrapper_throw_counterexample:
  "fst (makePvtName_wrapper (Ref 0) fn_throws Undefined [] st0) = Inl (TypeError ''boom'')
   \<and> stack st0 = []
   \<and> stack (snd (makePvtName_wrapper (Ref 0) fn_throws Undefined [] st0)) = [Ref 0]"
  by (simp add: makePvtName_wrapper_def fn_throws_def st0_def weak_get_def)

text \<open>
  C1, amended: the wrapper pushes its identity on the trace and then applies \<open>fn\<close> to the
  resolved instance. If \<open>fn\<close> leaves the trace as it found it, then on a normal return
  the wrapper pops its identity, so the trace (and the rest of the state \<open>fn\<close> left) is
  as before the call; when \<open>fn\<close> throws, the exception leaves the wrapper with the state
  \<open>fn\<close> left, the identity still on the trace.
\<close>

theorem makePvtName_wrapper_trace:
  assumes "fn (if truthy (weak_get (proxyMap st) this) then weak_get (proxyMap st) this else this)
              args (st\<lparr>stack := stack st @ [self]\<rparr>) = (r, st')"
      and "stack st' = stack st @ [self]"
  shows "makePvtName_wrapper self fn this args st =
           (r, case r of Inl e \<Rightarrow> st' | Inr v \<Rightarrow> st'\<lparr>stack := stack st\<rparr>)"
  using assms by (simp add: makePvtName_wrapper_def Let_def split: sum.splits)

theorem makePvtName_wrapper_trace_witness:
  "makePvtName_wrapper (Ref 0) fn_returns Undefined [] st0 = (Inr (Num 7), st0)
   \<and> makePvtName_wrapper (Ref 0) fn_throws Undefined [] st0
       = (Inl (TypeError ''boom''), st0\<lparr>stack := [Ref 0]\<rparr>)"
  using makePvtName_wrapper_trace
          [of fn_returns st0 Undefined "[]" "Ref 0" "Inr (Num 7)" "st0\<lparr>stack := [Ref 0]\<rparr>"]
        makePvtName_wrapper_trace
          [of fn_throws st0 Undefined "[]" "Ref 0" "Inl (TypeError ''boom'')"
              "st0\<lparr>stack := [Ref 0]\<rparr>"]
  by (simp add: fn_returns_def fn_throws_def st0_def weak_get_def)

section \<open>The normalizer\<close>

subsection \<open>Writes and what they leave alone\<close>

lemma length_set_own [simp]: "length (set_own h a k v) = length h"
  by (simp add: set_own_def)

lemma length_js_set [simp]: "length (js_set h a k v) = length h"
  by (simp add: js_set_def split: option.splits)

lemma obj_at_set_own_other: "b \<noteq> a \<Longrightarrow> obj_at (set_own h a k v) b = obj_at h b"
  by (simp add: set_own_def obj_at_def)


lemma obj_at_set_own_same:
  "obj_at (set_own h a k v) a =
     (obj_at h a)\<lparr>props := (if a < length h then AList.update k v (props (obj_at h a))
                              else props (obj_at h a))\<rparr>"
  by (simp add: set_own_def obj_at_def)

lemma flags_set_own [simp]:
  "callable (obj_at (set_own h a k v) b) = callable (obj_at h b)"
  "proto (obj_at (set_own h a k v) b) = proto (obj_at h b)"
  "frozen (obj_at (set_own h a k v) b) = frozen (obj_at h b)"
  by (cases "b = a"; simp add: obj_at_set_own_other obj_at_set_own_same)+

lemma flags_js_set [simp]:
  "callable (obj_at (js_set h a k v) b) = callable (obj_at h b)"
  "proto (obj_at (js_set h a k v) b) = proto (obj_at h b)"
  "frozen (obj_at (js_set h a k v) b) = frozen (obj_at h b)"
  by (simp_all add: js_set_def split: option.splits)



lemma typeof_js_set [simp]: "typeof (js_set h a k v) x = typeof h x"
  by (cases x) simp_all














lemma accepted_cong:
  "length h' = length h \<Longrightarrow> (\<And>x. v = Ref x \<Longrightarrow> obj_at h' x = obj_at h x) \<Longrightarrow>
     accepted h' v = accepted h v"
  by (cases v) simp_all



subsection \<open>The calls of \<^verbatim>\<open>hasOwnProperty\<close>\<close>







subsection \<open>The errors of the duplicate check\<close>











subsection \<open>The first loop\<close>







lemma accepted_js_set [simp]: "accepted (js_set h a k v) x = accepted h x"
  by (cases x) simp_all



subsection \<open>The second loop\<close>





subsection \<open>The prototype chain and the length of the walk\<close>





subsection \<open>The whole normalizer\<close>





























subsection \<open>Duplicate names\<close>




subsection \<open>The shape of the regions\<close>




subsection \<open>The static level\<close>

text \<open>
  C6 on the code: for \<^verbatim>\<open>{public: {a: 1}, static: {public: {b: 2}}}\<close> the normalized
  definition (address 4) has the static level's \<^verbatim>\<open>public\<close> region (address 3) as its
  instance-level \<^verbatim>\<open>public\<close>; the instance-level region (address 1) is not in it. Its
  \<^verbatim>\<open>static\<close> is the raw definition's own static object (address 2), to which the
  missing regions were added as \<^verbatim>\<open>undefined\<close>.
\<close>

theorem fixupData_static_overwrites_instance:
  "fixupData call True 0 def_static =
     (Inr (Ref 4),
      st0\<lparr>heap :=
        [plain [(KStr ''public'', Ref 1), (KStr ''static'', Ref 2)],
         plain [(KStr ''a'', Num 1)],
         plain [(KStr ''public'', Ref 3), (KStr ''private'', Undefined),
                (KStr ''protected'', Undefined)],
         plain [(KStr ''b'', Num 2)],
         plain [(KStr ''static'', Ref 2), (KStr ''className'', Str ''ClassBase''),
                (KStr ''inheritMode'', Undefined), (KStr ''private'', Undefined),
                (KStr ''protected'', Undefined), (KStr ''public'', Ref 3)],
         plain []]\<rparr>)"
  by code_simp

section \<open>Connecting and disconnecting the private layer\<close>

text \<open>
  C2: a caller that does not pass \<^verbatim>\<open>validateAccess\<close> gets the TypeError
  \<^verbatim>\<open>Inaccessible\<close> from \<^verbatim>\<open>connect\<close>, and the state, with it the instance's prototype
  chain, is unchanged; so the transition happens only for a caller that passes. (The
  check is the empty function of lines 261-263, which no caller passes.)
\<close>

theorem connect_requires_access:
  "\<not> truthy (validateAccess this (Num 1)) \<Longrightarrow>
     connect pvt this obj id' st = (Inl (TypeError ''Inaccessible''), st)"
  by (simp add: connect_def)

theorem connect_requires_access_witness:
  "\<not> truthy (validateAccess Undefined (Num 1))
   \<and> connect (KSym PRIVATE_LAYER) Undefined (Ref 0) (Sym (UserSymbol 7)) inst_detached
       = (Inl (TypeError ''Inaccessible''), inst_detached)"
  using connect_requires_access
          [of Undefined "KSym PRIVATE_LAYER" "Ref 0" "Sym (UserSymbol 7)" inst_detached]
  by (simp add: validateAccess_def)

text \<open>
  C3 on the code: the first \<^verbatim>\<open>connect\<close> of a registered instance installs nothing, it
  throws; and on an instance that carries the layer with counter 1, \<^verbatim>\<open>disconnect\<close>
  brings the counter to 0 and then throws a ReferenceError at \<^verbatim>\<open>prototype\<close>: the
  instance's prototype is still the hidden layer (address 4), not the original
  (address 1), and the slot on the frozen layer is not cleared.
\<close>

theorem disconnect_leaves_layer:
  "connect (KSym PRIVATE_LAYER) Undefined (Ref 0) (Sym (UserSymbol 7)) inst_detached
     = (Inl (TypeError ''Inaccessible''), inst_detached)
   \<and> disconnect (KSym PRIVATE_LAYER) (Ref 0) (Sym (UserSymbol 7)) inst_connected
     = (Inl (ReferenceError ''prototype is not defined''),
        inst_connected\<lparr>heap := (heap inst_connected)
           [5 := plain [(KStr ''count'', Num 0), (KStr ''prototype'', Ref 1)]]\<rparr>)
   \<and> proto (obj_at (heap (snd (disconnect (KSym PRIVATE_LAYER) (Ref 0) (Sym (UserSymbol 7))
                                  inst_connected))) 0) = Ref 4"
  by code_simp

section \<open>The class factory\<close>

text \<open>
  C8 on the code: whatever the arguments and the state, \<^verbatim>\<open>ClassicM\<close> ends in a throw;
  it returns no constructor.
\<close>

theorem ClassicM_always_throws:
  "\<exists>e. fst (ClassicM call us arguments st) = Inl e"
  by (auto simp: ClassicM_def Let_def split: prod.splits sum.splits)

text \<open>
  C9 on the code: with a base that \<^verbatim>\<open>classDefs\<close> records as final, \<^verbatim>\<open>ClassicM\<close> does
  not throw the TypeError of line 421; it throws a ReferenceError while it evaluates
  the test of line 420.
\<close>

theorem ClassicM_final_base:
  "fst (ClassicM call True [Ref 0, Ref 1] final_base)
     = Inl (ReferenceError ''Classic is not defined'')"
  by code_simp

section \<open>Placeholders\<close>

text \<open>
  C7 on the code: the marker \<^verbatim>\<open>init\<close> returns is not recognised.
  \<^verbatim>\<open>isPlaceHolder\<close> asks for an own property named by \<^verbatim>\<open>ClassicM.PLACEHOLDER\<close>, which
  is \<^verbatim>\<open>undefined\<close>, on an object it has just required to have no string-named property.
\<close>

theorem isPlaceHolder_rejects_init_marker:
  "init fn st = (Inr m, st') \<Longrightarrow> isPlaceHolder us m st' = Inr (Bool False)"
  by (auto simp: init_def isPlaceHolder_def Let_def obj_at_def nth_append own_keys_def
        own_has_def ClassicM_prop_def ClassicM_api_def split: if_splits)

theorem isPlaceHolder_rejects_init_marker_witness:
  "init (Ref 0) one_function
     = (Inr (Ref 1),
        one_function\<lparr>heap := [a_function,
                               \<lparr>props = [(KSym PLACEHOLDER, Ref 2)], proto = Null,
                                  frozen = True, callable = False\<rparr>,
                               plain [(KStr ''value'', Undefined)]],
                      initFns := [(Ref 1, Ref 0)]\<rparr>)
   \<and> isPlaceHolder False (Ref 1) (snd (init (Ref 0) one_function)) = Inr (Bool False)"
  using isPlaceHolder_rejects_init_marker
          [of "Ref 0" one_function "Ref 1" "snd (init (Ref 0) one_function)" False]
  by (simp add: init_def one_function_def st0_def a_function_def plain_def obj_at_def
        empty_obj_def weak_set_def)

end
